theory Spec2Isabelle
  imports Main
begin

section \<open>Data model\<close>

subsection \<open>Pods (the fields of corev1.Pod that the readers inspect)\<close>

datatype PodPhase = PodPending | PodRunning | PodSucceeded | PodFailed | PodUnknown

datatype PodConditionType =
  ContainersReady | PodInitialized | PodReady | PodScheduled | OtherConditionType string

datatype ConditionStatus = ConditionTrue | ConditionFalse | ConditionUnknown

record PodCondition =
  pc_Type :: PodConditionType
  pc_Status :: ConditionStatus
  pc_Message :: string

text \<open>
  corev1.ContainerState holds three pointers, at most one of them set. Only the
  presence of each matters to the readers; the payload kept here is the reason text.
\<close>

record ContainerState =
  Waiting :: "string option"
  Running :: "string option"
  Terminated :: "string option"

definition zeroContainerState :: ContainerState where
  "zeroContainerState = \<lparr>Waiting = None, Running = None, Terminated = None\<rparr>"

record ContainerStatus =
  cs_Name :: string
  cs_State :: ContainerState

record Container =
  c_Name :: string

record Pod =
  pod_Name :: string
  DeletionTimestamp :: "string option"
  Phase :: PodPhase
  Conditions :: "PodCondition list"
  InitContainerStatuses :: "ContainerStatus list"
  ContainerStatuses :: "ContainerStatus list"
  InitContainers :: "Container list"
  Containers :: "Container list"

text \<open>
  An informer hands its handlers a value of type interface: a pod, or something else
  (for a delete, possibly a tombstone), on which the type assertion fails.
\<close>

datatype obj = PodObj Pod | OtherObj

subsection \<open>Steps\<close>

record step =
  name :: string
  container :: string
  state :: ContainerState

definition hasStarted :: "step \<Rightarrow> bool" where
  "hasStarted s = (Waiting (state s) = None)"

section \<open>The pod watcher's policy function\<close>

text \<open>
  The loop over \<open>pod.Status.Conditions\<close> of \<open>checkPodStatus\<close>: the message of the first
  condition of type PodInitialized or ContainersReady whose status is Unknown.
\<close>

fun checkConditions :: "PodCondition list \<Rightarrow> string option" where
  "checkConditions [] = None"
| "checkConditions (c # cs) =
     (if pc_Type c = PodInitialized \<or> pc_Type c = ContainersReady then
        (if pc_Status c = ConditionUnknown then Some (pc_Message c) else checkConditions cs)
      else checkConditions cs)"

text \<open>
  The result is the pair (pod pointer, error) of the source; \<open>None\<close> is nil and an
  error is its message.
\<close>

fun checkPodStatus :: "obj \<Rightarrow> Pod option \<times> string option" where
  "checkPodStatus OtherObj = (None, Some ''failed to cast to pod object'')"
| "checkPodStatus (PodObj pod) =
     (if DeletionTimestamp pod \<noteq> None then
        (Some pod, Some (''failed to run the pod '' @ pod_Name pod @ '' ''))
      else if Phase pod = PodSucceeded \<or> Phase pod = PodRunning \<or> Phase pod = PodFailed then
        (Some pod, None)
      else case checkConditions (Conditions pod) of
             Some m \<Rightarrow> (Some pod, Some m)
           | None \<Rightarrow> (None, None))"

section \<open>Steps of a pod\<close>

definition TrimPrefix :: "string \<Rightarrow> string \<Rightarrow> string" where
  "TrimPrefix s p = (if take (length p) s = p then drop (length p) s else s)"

text \<open>The map from container name to state, filled in the order of the statuses.\<close>

fun statusMap :: "ContainerStatus list \<Rightarrow> (string \<rightharpoonup> ContainerState) \<Rightarrow> (string \<rightharpoonup> ContainerState)" where
  "statusMap [] m = m"
| "statusMap (cs # rest) m = statusMap rest (m(cs_Name cs \<mapsto> cs_State cs))"

text \<open>Reading a Go map at a missing key gives the zero value.\<close>

definition lookupState :: "(string \<rightharpoonup> ContainerState) \<Rightarrow> string \<Rightarrow> ContainerState" where
  "lookupState m k = (case m k of None \<Rightarrow> zeroContainerState | Some st \<Rightarrow> st)"

fun stepsOf :: "(string \<rightharpoonup> ContainerState) \<Rightarrow> Container list \<Rightarrow> step list" where
  "stepsOf status [] = []"
| "stepsOf status (c # cs) =
     \<lparr>name = TrimPrefix (c_Name c) ''step-'', container = c_Name c,
      state = lookupState status (c_Name c)\<rparr> # stepsOf status cs"

text \<open>
  \<open>getSteps\<close> and \<open>getInitSteps\<close> read through the pod pointer: on nil the program
  panics, which is the result \<open>None\<close>.
\<close>

fun getSteps :: "Pod option \<Rightarrow> step list option" where
  "getSteps None = None"
| "getSteps (Some pod) =
     Some (stepsOf (statusMap (ContainerStatuses pod) Map.empty) (Containers pod))"

fun getInitSteps :: "Pod option \<Rightarrow> step list option" where
  "getInitSteps None = None"
| "getInitSteps (Some pod) =
     Some (stepsOf (statusMap (InitContainerStatuses pod) Map.empty) (InitContainers pod))"

fun stepsToAddMap :: "string list \<Rightarrow> (string \<rightharpoonup> bool) \<Rightarrow> (string \<rightharpoonup> bool)" where
  "stepsToAddMap [] m = m"
| "stepsToAddMap (s # rest) m = stepsToAddMap rest (m(s \<mapsto> True))"

definition lookupBool :: "(string \<rightharpoonup> bool) \<Rightarrow> string \<Rightarrow> bool" where
  "lookupBool m k = (case m k of None \<Rightarrow> False | Some b \<Rightarrow> b)"

fun addGiven :: "(string \<rightharpoonup> bool) \<Rightarrow> step list \<Rightarrow> step list \<Rightarrow> step list" where
  "addGiven stepsToAdd [] steps = steps"
| "addGiven stepsToAdd (sp # rest) steps =
     (if lookupBool stepsToAdd (name sp) then addGiven stepsToAdd rest (steps @ [sp])
      else addGiven stepsToAdd rest steps)"

definition filterSteps :: "Pod option \<Rightarrow> bool \<Rightarrow> string list \<Rightarrow> step list option" where
  "filterSteps pod allSteps stepsGiven =
     (case getSteps pod of
        None \<Rightarrow> None
      | Some stepsInPod \<Rightarrow>
          (case (if allSteps then getInitSteps pod else Some []) of
             None \<Rightarrow> None
           | Some steps \<Rightarrow>
               if length stepsGiven = 0 then Some (steps @ stepsInPod)
               else Some (addGiven (stepsToAddMap stepsGiven Map.empty) stepsInPod steps)))"

section \<open>Waiting for a pod\<close>

text \<open>
  \<open>Pod.Wait\<close> first probes the pod with \<open>Get\<close>, then receives the informer's events
  one at a time and returns at the first one for which \<open>checkPodStatus\<close> gives a pod or
  an error. The argument \<open>events\<close> is the sequence of objects in the order the loop
  receives them. The event channel is closed only when \<open>Wait\<close> returns, so a loop that
  has used up the events waits for ever: that is the result \<open>None\<close>.
\<close>

fun waitLoop :: "obj list \<Rightarrow> (Pod option \<times> string option) option" where
  "waitLoop [] = None"
| "waitLoop (e # es) =
     (case checkPodStatus e of
        (None, None) \<Rightarrow> waitLoop es
      | (pod, err) \<Rightarrow> Some (pod, err))"

definition Wait :: "Pod option \<times> string option \<Rightarrow> obj list \<Rightarrow> (Pod option \<times> string option) option" where
  "Wait getResult events =
     (case snd getResult of
        Some err \<Rightarrow> Some (None, Some err)
      | None \<Rightarrow> waitLoop events)"

section \<open>Task runs\<close>

record Condition =
  cond_Status :: ConditionStatus
  cond_Message :: string

record TaskRun =
  tr_Name :: string
  StartTime :: "string option"
  CompletionTime :: "string option"
  PodName :: string
  RetriesStatus :: "string list"
  tr_Conditions :: "Condition list"

text \<open>
  Modelled from the spec: the methods \<open>HasStarted\<close> and \<open>IsDone\<close> of the platform's
  TaskRun type are not part of the sources at hand. The data model defines them as
  \<open>has_started := started_at set\<close> and \<open>is_done := completed_at set\<close>.
  \<open>RetriesStatus\<close> keeps, of each earlier attempt, the pod name, the only field read.
\<close>

definition HasStarted :: "TaskRun \<Rightarrow> bool" where
  "HasStarted tr = (StartTime tr \<noteq> None)"

definition IsDone :: "TaskRun \<Rightarrow> bool" where
  "IsDone tr = (CompletionTime tr \<noteq> None)"

definition isFailure :: "TaskRun \<Rightarrow> bool" where
  "isFailure tr =
     (length (tr_Conditions tr) \<noteq> 0 \<and> cond_Status (hd (tr_Conditions tr)) = ConditionFalse)"

text \<open>The first condition is read only when \<open>isFailure\<close> has found the list non-empty.\<close>

definition hasTaskRunFailed :: "TaskRun \<Rightarrow> string \<Rightarrow> string option" where
  "hasTaskRunFailed tr taskName =
     (if isFailure tr
      then Some (''task '' @ taskName @ '' has failed: '' @ cond_Message (hd (tr_Conditions tr)))
      else None)"

definition areRetriesScheduled :: "TaskRun \<Rightarrow> int \<Rightarrow> bool" where
  "areRetriesScheduled tr retries =
     (if IsDone tr then False else int (length (RetriesStatus tr)) < retries)"

section \<open>The reader\<close>

record Reader =
  run :: string
  task :: string
  displayName :: string
  follow :: bool
  allSteps :: bool
  steps :: "string list"
  retries :: int
  stream :: bool

record Log =
  Task :: string
  TaskDisplayName :: string
  Step :: string
  Log :: string

text \<open>
  What a reader goroutine sends, in the order of its sends: a record on the log channel
  or an error on the error channel. Both channels are unbuffered, so the order of the
  sends of one goroutine is the order in which they are received.
\<close>

datatype out = LogOut Log | ErrOut string

subsection \<open>Pod names of a finished task run\<close>



subsection \<open>Pod names of a running task run\<close>

datatype podOut = PodOut string | PodErr string

text \<open>\<open>addPod\<close>: the set of names is the key set of \<open>podMap\<close>.\<close>

definition addPod :: "string set \<Rightarrow> string \<Rightarrow> string set \<times> podOut list" where
  "addPod podMap n = (if n \<in> podMap then (podMap, []) else (insert n podMap, [PodOut n]))"

fun addPods :: "string set \<Rightarrow> string list \<Rightarrow> string set \<times> podOut list" where
  "addPods podMap [] = (podMap, [])"
| "addPods podMap (n # ns) =
     (case addPod podMap n of
        (podMap', out) \<Rightarrow>
          (case addPods podMap' ns of (podMap'', out') \<Rightarrow> (podMap'', out @ out')))"

text \<open>The names sent before the goroutine enters its loop.\<close>

definition initialPods :: "TaskRun \<Rightarrow> string set \<times> podOut list" where
  "initialPods tr =
     (case addPods {} (if length (RetriesStatus tr) \<noteq> 0 then RetriesStatus tr else []) of
        (podMap, out) \<Rightarrow>
          if PodName tr \<noteq> [] then
            (case addPod podMap (PodName tr) of (podMap', out') \<Rightarrow> (podMap', out @ out'))
          else (podMap, out))"

text \<open>
  What one \<open>select\<close> of the loop receives: a watch event carrying a task run, a watch
  event whose object does not convert (with the conversion's error), or the timer.
\<close>

datatype selected = WatchEvent TaskRun | BadEvent string | Timeout

text \<open>
  The loop, run on the sequence of what its selects receive. The result is what was
  sent, and whether the goroutine has returned (closing both channels and stopping the
  watch). When the sequence is used up without a return the goroutine is still waiting.
\<close>

fun watchLoop :: "Reader \<Rightarrow> TaskRun \<Rightarrow> string set \<Rightarrow> selected list \<Rightarrow> podOut list \<times> bool" where
  "watchLoop r tr podMap [] = ([], False)"
| "watchLoop r tr podMap (BadEvent err # rest) = ([PodErr err], True)"
| "watchLoop r tr podMap (WatchEvent tr' # rest) =
     (if PodName tr' \<noteq> [] then
        (case addPod podMap (PodName tr') of
           (podMap', out) \<Rightarrow>
             if \<not> areRetriesScheduled tr' (retries r) then (out, True)
             else (case watchLoop r tr' podMap' rest of (out', ret) \<Rightarrow> (out @ out', ret)))
      else watchLoop r tr' podMap rest)"
| "watchLoop r tr podMap (Timeout # rest) =
     (case hasTaskRunFailed tr (task r) of
        Some err \<Rightarrow> ([PodErr err], True)
      | None \<Rightarrow>
          if HasStarted tr \<and> PodName tr \<noteq> [] then
            (if areRetriesScheduled tr (retries r) then watchLoop r tr podMap rest
             else ([], True))
          else ([PodErr (''task '' @ task r @ '' has not started yet or pod for task not yet available'')],
                True))"

text \<open>The goroutine of \<open>getTaskRunPodNames\<close>: the names of the snapshot, then the loop.\<close>

definition discoverPodNames :: "Reader \<Rightarrow> TaskRun \<Rightarrow> selected list \<Rightarrow> podOut list \<times> bool" where
  "discoverPodNames r tr sel =
     (case initialPods tr of
        (podMap, out) \<Rightarrow>
          (case watchLoop r tr podMap sel of (out', ret) \<Rightarrow> (out @ out', ret)))"

text \<open>
  \<open>getTaskRunPodNames\<close> opens the watch first; \<open>watchErr\<close> is the error of that call, if
  any, and it is returned as the start error.
\<close>

definition getTaskRunPodNames :: "Reader \<Rightarrow> TaskRun \<Rightarrow> string option \<Rightarrow> selected list
    \<Rightarrow> string + podOut list \<times> bool" where
  "getTaskRunPodNames r tr watchErr sel =
     (case watchErr of
        Some err \<Rightarrow> Inl err
      | None \<Rightarrow> Inr (discoverPodNames r tr sel))"

section \<open>Streaming the steps of a pod\<close>

text \<open>
  Modelled from the spec: the container log reader and \<open>Container.Status\<close> are not part
  of the sources at hand. Of a container the readers see: whether opening the log
  stream fails (\<open>readErr\<close>); the lines and the errors the two channels deliver before
  each is closed at end of stream (\<open>logLines\<close>, \<open>logErrs\<close>); and the error of the status
  check after the stream, if any (\<open>statusErr\<close>). \<open>sched\<close> resolves the \<open>select\<close> of the
  receiving loop while both channels are open: \<open>True\<close> takes the line channel, and a
  schedule that is used up takes the line channel.
\<close>

record ContainerEnv =
  readErr :: "string option"
  logLines :: "string list"
  logErrs :: "string list"
  sched :: "bool list"
  statusErr :: "string option"

definition mkLog :: "Reader \<Rightarrow> step \<Rightarrow> string \<Rightarrow> Log" where
  "mkLog r s l = \<lparr>Task = task r, TaskDisplayName = displayName r, Step = name s, Log = l\<rparr>"

text \<open>
  The loop \<open>for containerLogC != nil || containerLogErrC != nil\<close>. A channel variable
  is \<open>None\<close> once it has been set to nil, and otherwise holds what the channel still
  delivers before it is closed.
\<close>

definition chanSize :: "string list option \<Rightarrow> nat" where
  "chanSize c = (case c of None \<Rightarrow> 0 | Some xs \<Rightarrow> Suc (length xs))"

function (sequential) selectLoop :: "Reader \<Rightarrow> step \<Rightarrow> string list option \<Rightarrow> string list option \<Rightarrow> bool list \<Rightarrow> out list" where
  "selectLoop r s None None sch = []"
| "selectLoop r s (Some []) None sch =
     LogOut (mkLog r s ''EOFLOG'') # selectLoop r s None None sch"
| "selectLoop r s (Some (l # ls)) None sch =
     LogOut (mkLog r s l) # selectLoop r s (Some ls) None sch"
| "selectLoop r s None (Some []) sch = selectLoop r s None None sch"
| "selectLoop r s None (Some (e # es)) sch =
     ErrOut (''failed to get logs for '' @ name s @ '': '' @ e) # selectLoop r s None (Some es) sch"
| "selectLoop r s (Some []) (Some es) [] =
     LogOut (mkLog r s ''EOFLOG'') # selectLoop r s None (Some es) []"
| "selectLoop r s (Some (l # ls)) (Some es) [] =
     LogOut (mkLog r s l) # selectLoop r s (Some ls) (Some es) []"
| "selectLoop r s (Some []) (Some es) (True # sch) =
     LogOut (mkLog r s ''EOFLOG'') # selectLoop r s None (Some es) sch"
| "selectLoop r s (Some (l # ls)) (Some es) (True # sch) =
     LogOut (mkLog r s l) # selectLoop r s (Some ls) (Some es) sch"
| "selectLoop r s (Some ls) (Some []) (False # sch) = selectLoop r s (Some ls) None sch"
| "selectLoop r s (Some ls) (Some (e # es)) (False # sch) =
     ErrOut (''failed to get logs for '' @ name s @ '': '' @ e) # selectLoop r s (Some ls) (Some es) sch"
  by pat_completeness auto
termination
  by (relation "measure (\<lambda>(r, s, lc, ec, sch). chanSize lc + chanSize ec)")
     (auto simp: chanSize_def)

text \<open>
  \<open>readStepsLogs\<close>, with \<open>cenv\<close> the behaviour of the containers of the pod. The result
  is what the call sends before it returns.
\<close>

fun readStepsLogs :: "Reader \<Rightarrow> (string \<Rightarrow> ContainerEnv) \<Rightarrow> bool \<Rightarrow> step list \<Rightarrow> out list" where
  "readStepsLogs r cenv fol [] = []"
| "readStepsLogs r cenv fol (s # rest) =
     (if \<not> fol \<and> \<not> hasStarted s then readStepsLogs r cenv fol rest
      else case readErr (cenv (container s)) of
        Some err \<Rightarrow>
          ErrOut (''error in getting logs for step '' @ name s @ '': '' @ err)
            # readStepsLogs r cenv fol rest
      | None \<Rightarrow>
          selectLoop r s (Some (logLines (cenv (container s))))
            (Some (logErrs (cenv (container s)))) (sched (cenv (container s)))
          @ (case statusErr (cenv (container s)) of
               Some err \<Rightarrow> [ErrOut err]
             | None \<Rightarrow> readStepsLogs r cenv fol rest))"

section \<open>Reading the pods of a task run\<close>

text \<open>\<open>strings.TrimSpace\<close> on the white space of ASCII.\<close>

definition isSpace :: "char \<Rightarrow> bool" where
  "isSpace c = (c \<in> {CHR 0x09, CHR 0x0A, CHR 0x0B, CHR 0x0C, CHR 0x0D, CHR '' ''})"

definition TrimSpace :: "string \<Rightarrow> string" where
  "TrimSpace s = rev (dropWhile isSpace (rev (dropWhile isSpace s)))"

text \<open>
  What the cluster answers for one pod name: the result of \<open>Get\<close>, the events an
  informer delivers to \<open>Wait\<close>, and the behaviour of the pod's containers.
\<close>

record PodEnv =
  getResult :: "Pod option \<times> string option"
  events :: "obj list"
  containers :: "string \<Rightarrow> ContainerEnv"

datatype outcome = Completed | Panicked | Blocked

text \<open>
  The goroutine of \<open>readPodLogs\<close> that ranges over the pod channel, run on the names
  the channel delivers before it is closed. \<open>Completed\<close>: the goroutine returned and
  closed the log channel. \<open>Panicked\<close>: it dereferenced a nil pod. \<open>Blocked\<close>: \<open>Wait\<close>
  never returned.
\<close>

definition fetchPod :: "(string \<Rightarrow> PodEnv) \<Rightarrow> bool \<Rightarrow> string \<Rightarrow> (Pod option \<times> string option) option" where
  "fetchPod env fol podName =
     (if fol then Wait (getResult (env podName)) (events (env podName))
      else Some (getResult (env podName)))"

definition podError :: "Reader \<Rightarrow> string option \<Rightarrow> out list" where
  "podError r err =
     (case err of
        Some e \<Rightarrow> [ErrOut (''task '' @ task r @ '' failed: '' @ TrimSpace e
                   @ ''. Run tkn tr desc '' @ run r @ '' for more details'')]
      | None \<Rightarrow> [])"

fun podLoop :: "Reader \<Rightarrow> (string \<Rightarrow> PodEnv) \<Rightarrow> bool \<Rightarrow> string list \<Rightarrow> out list \<times> outcome" where
  "podLoop r env fol [] = ([], Completed)"
| "podLoop r env fol (podName # rest) =
     (case fetchPod env fol podName of
        None \<Rightarrow> ([], Blocked)
      | Some (pod, err) \<Rightarrow>
          (case filterSteps pod (allSteps r) (steps r) of
             None \<Rightarrow> (podError r err, Panicked)
           | Some sts \<Rightarrow>
               (case podLoop r env fol rest of
                  (out, oc) \<Rightarrow>
                    (podError r err @ readStepsLogs r (containers (env podName)) fol sts @ out, oc))))"

text \<open>
  \<open>readPodLogs\<close>: a first goroutine forwards the errors of the pod-name discovery
  unchanged, the second one is \<open>podLoop\<close>. The two run side by side; the result keeps
  what each sends.
\<close>

definition readPodLogs :: "Reader \<Rightarrow> (string \<Rightarrow> PodEnv) \<Rightarrow> string list \<Rightarrow> string list \<Rightarrow> bool
    \<Rightarrow> string list \<times> out list \<times> outcome" where
  "readPodLogs r env podC podErrC fol = (podErrC, podLoop r env fol podC)"

section \<open>Notions used to state the properties\<close>

text \<open>The records sent on the log channel, and the pod names sent on the pod channel.\<close>

fun logsOf :: "out list \<Rightarrow> Log list" where
  "logsOf [] = []"
| "logsOf (LogOut l # rest) = l # logsOf rest"
| "logsOf (ErrOut e # rest) = logsOf rest"

fun podNamesOf :: "podOut list \<Rightarrow> string list" where
  "podNamesOf [] = []"
| "podNamesOf (PodOut n # rest) = n # podNamesOf rest"
| "podNamesOf (PodErr e # rest) = podNamesOf rest"

text \<open>
  The streamed steps of one call of \<open>readStepsLogs\<close>: those the loop reaches, does
  not skip, and whose log stream opens. The loop ends after the first of them whose
  status check fails.
\<close>

fun streamedSteps :: "(string \<Rightarrow> ContainerEnv) \<Rightarrow> bool \<Rightarrow> step list \<Rightarrow> step list" where
  "streamedSteps cenv fol [] = []"
| "streamedSteps cenv fol (s # rest) =
     (if \<not> fol \<and> \<not> hasStarted s then streamedSteps cenv fol rest
      else case readErr (cenv (container s)) of
        Some err \<Rightarrow> streamedSteps cenv fol rest
      | None \<Rightarrow>
          s # (case statusErr (cenv (container s)) of
                 Some err \<Rightarrow> []
               | None \<Rightarrow> streamedSteps cenv fol rest))"

text \<open>
  The state that the statuses give for a container name: that of the last status of
  this name, and the zero state when there is none. \<open>podStep\<close> is the step of a container.
\<close>

definition statusState :: "ContainerStatus list \<Rightarrow> string \<Rightarrow> ContainerState" where
  "statusState sts n =
     (case find (\<lambda>cs. cs_Name cs = n) (rev sts) of
        Some cs \<Rightarrow> cs_State cs
      | None \<Rightarrow> zeroContainerState)"

definition podStep :: "ContainerStatus list \<Rightarrow> Container \<Rightarrow> step" where
  "podStep sts c =
     \<lparr>name = TrimPrefix (c_Name c) ''step-'', container = c_Name c,
      state = statusState sts (c_Name c)\<rparr>"

text \<open>A list without its repetitions, the first occurrence of each element kept.\<close>

primrec firstOccurrences :: "'a list \<Rightarrow> 'a list" where
  "firstOccurrences [] = []"
| "firstOccurrences (x # xs) = x # filter (\<lambda>y. y \<noteq> x) (firstOccurrences xs)"

section \<open>Concrete inputs\<close>

definition runningState :: ContainerState where
  "runningState = \<lparr>Waiting = None, Running = Some ''started'', Terminated = None\<rparr>"

definition terminatedState :: ContainerState where
  "terminatedState = \<lparr>Waiting = None, Running = None, Terminated = Some ''Completed''\<rparr>"

definition buildPod :: Pod where
  "buildPod =
     \<lparr>pod_Name = ''build-pod'', DeletionTimestamp = None, Phase = PodSucceeded,
      Conditions = [],
      InitContainerStatuses = [\<lparr>cs_Name = ''step-prepare'', cs_State = terminatedState\<rparr>],
      ContainerStatuses = [\<lparr>cs_Name = ''step-compile'', cs_State = terminatedState\<rparr>,
                           \<lparr>cs_Name = ''step-test'', cs_State = terminatedState\<rparr>],
      InitContainers = [\<lparr>c_Name = ''step-prepare''\<rparr>],
      Containers = [\<lparr>c_Name = ''step-compile''\<rparr>, \<lparr>c_Name = ''step-test''\<rparr>]\<rparr>"

text \<open>A running pod that is being deleted.\<close>

definition deletedPod :: Pod where
  "deletedPod =
     \<lparr>pod_Name = ''build-pod'', DeletionTimestamp = Some ''2024-01-01T00:00:00Z'',
      Phase = PodRunning, Conditions = [],
      InitContainerStatuses = [],
      ContainerStatuses = [\<lparr>cs_Name = ''step-compile'', cs_State = runningState\<rparr>],
      InitContainers = [],
      Containers = [\<lparr>c_Name = ''step-compile''\<rparr>]\<rparr>"

text \<open>A pod whose second container has no status yet.\<close>

definition partialPod :: Pod where
  "partialPod =
     \<lparr>pod_Name = ''build-pod'', DeletionTimestamp = None, Phase = PodRunning,
      Conditions = [],
      InitContainerStatuses = [],
      ContainerStatuses = [\<lparr>cs_Name = ''step-compile'', cs_State = terminatedState\<rparr>],
      InitContainers = [],
      Containers = [\<lparr>c_Name = ''step-compile''\<rparr>, \<lparr>c_Name = ''step-test''\<rparr>]\<rparr>"

definition exReader :: Reader where
  "exReader =
     \<lparr>run = ''build-run'', task = ''build'', displayName = ''build'', follow = True,
      allSteps = False, steps = [], retries = 1, stream = False\<rparr>"

definition exStep :: step where
  "exStep = \<lparr>name = ''compile'', container = ''step-compile'', state = terminatedState\<rparr>"

definition testStep :: step where
  "testStep = \<lparr>name = ''test'', container = ''step-test'', state = terminatedState\<rparr>"

text \<open>A container that prints the line EOFLOG itself.\<close>

definition echoEnv :: "string \<Rightarrow> ContainerEnv" where
  "echoEnv c = \<lparr>readErr = None, logLines = [''EOFLOG''], logErrs = [], sched = [],
                statusErr = None\<rparr>"

text \<open>Containers that print one line, the first exiting with an error.\<close>

definition failingEnv :: "string \<Rightarrow> ContainerEnv" where
  "failingEnv c =
     \<lparr>readErr = None, logLines = [''a''], logErrs = [], sched = [],
      statusErr = (if c = ''step-compile'' then Some ''container step-compile has failed'' else None)\<rparr>"

definition quietEnv :: "string \<Rightarrow> ContainerEnv" where
  "quietEnv c = \<lparr>readErr = None, logLines = [''a''], logErrs = [], sched = [],
                 statusErr = None\<rparr>"

text \<open>A started task run on its first attempt, and the same run after one retry.\<close>

definition firstAttempt :: TaskRun where
  "firstAttempt =
     \<lparr>tr_Name = ''build-run'', StartTime = Some ''2024-01-01T00:00:00Z'', CompletionTime = None,
      PodName = ''p0'', RetriesStatus = [], tr_Conditions = []\<rparr>"

definition secondAttempt :: TaskRun where
  "secondAttempt =
     \<lparr>tr_Name = ''build-run'', StartTime = Some ''2024-01-01T00:05:00Z'', CompletionTime = None,
      PodName = ''p1'', RetriesStatus = [''p0''], tr_Conditions = []\<rparr>"


text \<open>
  The cluster's answers: pod p0 does not exist, pod p1 is being deleted while it runs,
  any other pod has succeeded.
\<close>

definition exCluster :: "string \<Rightarrow> PodEnv" where
  "exCluster n =
     (if n = ''p0'' then
        \<lparr>getResult = (None, Some ''pods p0 not found''), events = [], containers = quietEnv\<rparr>
      else if n = ''p1'' then
        \<lparr>getResult = (Some deletedPod, None), events = [PodObj deletedPod], containers = quietEnv\<rparr>
      else
        \<lparr>getResult = (Some buildPod, None), events = [PodObj buildPod], containers = failingEnv\<rparr>)"

section \<open>Auxiliary facts\<close>

lemma find_app:
  "find P (xs @ ys) = (case find P xs of None \<Rightarrow> find P ys | Some x \<Rightarrow> Some x)"
  by (induction xs) auto

lemma checkConditions_find:
  "checkConditions cs =
     map_option pc_Message
       (find (\<lambda>c. (pc_Type c = PodInitialized \<or> pc_Type c = ContainersReady)
                   \<and> pc_Status c = ConditionUnknown) cs)"
  by (induction cs) auto

lemma statusMap_lookup:
  "statusMap sts m n =
     (case find (\<lambda>cs. cs_Name cs = n) (rev sts) of
        Some cs \<Rightarrow> Some (cs_State cs) | None \<Rightarrow> m n)"
  by (induction sts arbitrary: m) (auto split: option.splits simp: find_app)

lemma stepsOf_podStep:
  "stepsOf (statusMap sts Map.empty) cs = map (podStep sts) cs"
  by (induction cs)
     (auto simp: podStep_def statusState_def lookupState_def statusMap_lookup split: option.splits)

lemma statusState_missing:
  assumes "n \<notin> cs_Name ` set sts"
  shows "statusState sts n = zeroContainerState"
proof -
  from assms have "find (\<lambda>cs. cs_Name cs = n) (rev sts) = None"
    by (auto simp: find_None_iff)
  then show ?thesis by (simp add: statusState_def)
qed

lemma lookupBool_empty: "lookupBool Map.empty k = False"
  by (simp add: lookupBool_def)

lemma stepsToAddMap_lookup:
  "lookupBool (stepsToAddMap given m) k = (k \<in> set given \<or> lookupBool m k)"
  by (induction given arbitrary: m) (auto simp: lookupBool_def)

lemma addGiven_filter:
  "addGiven m sps acc = acc @ filter (\<lambda>sp. lookupBool m (name sp)) sps"
  by (induction sps arbitrary: acc) auto

lemma set_firstOccurrences [simp]: "set (firstOccurrences xs) = set xs"
  by (induction xs) auto

lemma distinct_firstOccurrences [simp]: "distinct (firstOccurrences xs)"
  by (induction xs) auto




lemma podNamesOf_map [simp]: "podNamesOf (map PodOut ns) = ns"
  by (induction ns) auto

lemma podNamesOf_append [simp]: "podNamesOf (xs @ ys) = podNamesOf xs @ podNamesOf ys"
  by (induction xs rule: podNamesOf.induct) auto


lemma discoverPodNames_alt:
  "discoverPodNames r tr sel =
     (snd (initialPods tr) @ fst (watchLoop r tr (fst (initialPods tr)) sel),
      snd (watchLoop r tr (fst (initialPods tr)) sel))"
  by (simp add: discoverPodNames_def split: prod.splits)


text \<open>Once the goroutine has returned, what its selects would have received is lost.\<close>

lemma watchLoop_returned_append:
  "snd (watchLoop r tr podMap xs) \<Longrightarrow> watchLoop r tr podMap (xs @ ys) = watchLoop r tr podMap xs"
  by (induction r tr podMap xs rule: watchLoop.induct)
     (auto split: prod.splits option.splits if_splits)

lemma watchLoop_final_event:
  "PodName tr' \<noteq> [] \<Longrightarrow> \<not> areRetriesScheduled tr' (retries r) \<Longrightarrow>
   snd (watchLoop r tr podMap (pre @ [WatchEvent tr']))"
  by (induction r tr podMap pre rule: watchLoop.induct)
     (auto split: prod.splits option.splits if_splits)

lemma no_retries_scheduled:
  "retries r \<le> int (length (RetriesStatus tr')) \<Longrightarrow> \<not> areRetriesScheduled tr' (retries r)"
  by (simp add: areRetriesScheduled_def)

lemma logsOf_append [simp]: "logsOf (xs @ ys) = logsOf xs @ logsOf ys"
  by (induction xs rule: logsOf.induct) auto

text \<open>Whatever the schedule, the records of a step are its lines and then EOFLOG.\<close>

lemma logsOf_selectLoop:
  "logsOf (selectLoop r s lc ec sch) =
     (case lc of None \<Rightarrow> [] | Some ls \<Rightarrow> map (mkLog r s) ls @ [mkLog r s ''EOFLOG''])"
  by (induction r s lc ec sch rule: selectLoop.induct) auto

lemma mkLog_inj: "(mkLog r s l = mkLog r s l') = (l = l')"
  by (simp add: mkLog_def)

lemma count_mkLog: "count_list (map (mkLog r s) ls) (mkLog r s l) = count_list ls l"
  by (induction ls) (auto simp: mkLog_inj)

lemma readStepsLogs_status_error:
  assumes "fol \<or> hasStarted s" and "readErr (cenv (container s)) = None"
    and "statusErr (cenv (container s)) = Some err"
  shows "readStepsLogs r cenv fol (pre @ s # rest) = readStepsLogs r cenv fol (pre @ [s])"
  using assms by (induction pre) (auto split: option.splits)

section \<open>The claims\<close>

subsection \<open>C1: the EOFLOG record of a step\<close>

text \<open>
  Claim C1, as the code has it. The log records of one call of \<open>readStepsLogs\<close> (one
  pod attempt) are, for each streamed step in order, the lines of its container
  followed by one EOFLOG record that the reader adds: this record is the last one
  of the step, every line of the step precedes it, and the records of the next step
  follow it. This holds for every schedule of the two channels. The marker is an
  ordinary line value, so the records of a step that read EOFLOG are one more than the
  lines of the container that read EOFLOG: exactly one when the container prints none.
\<close>

theorem eoflog_closes_step:
  "logsOf (readStepsLogs r cenv fol sts) =
     concat (map (\<lambda>s. map (mkLog r s) (logLines (cenv (container s))) @ [mkLog r s ''EOFLOG''])
                 (streamedSteps cenv fol sts))
   \<and> count_list (map (mkLog r s) (logLines (cenv (container s))) @ [mkLog r s ''EOFLOG''])
        (mkLog r s ''EOFLOG'')
      = 1 + count_list (logLines (cenv (container s))) ''EOFLOG''"
proof -
  have "logsOf (readStepsLogs r cenv fol sts) =
     concat (map (\<lambda>s. map (mkLog r s) (logLines (cenv (container s))) @ [mkLog r s ''EOFLOG''])
                 (streamedSteps cenv fol sts))"
    by (induction sts) (auto simp: logsOf_selectLoop split: option.splits)
  then show ?thesis
    by (simp add: count_mkLog)
qed

theorem eoflog_closes_step_witness:
  "logsOf (readStepsLogs exReader quietEnv False [exStep, testStep]) =
     [mkLog exReader exStep ''a'', mkLog exReader exStep ''EOFLOG'',
      mkLog exReader testStep ''a'', mkLog exReader testStep ''EOFLOG'']"
  using eoflog_closes_step [of exReader quietEnv False "[exStep, testStep]" exStep]
  by (simp add: quietEnv_def exStep_def testStep_def hasStarted_def terminatedState_def)

text \<open>A container that prints the line EOFLOG: the step has two EOFLOG records.\<close>

theorem eoflog_twice:
  "readStepsLogs exReader echoEnv False [exStep] =
     [LogOut \<lparr>Task = ''build'', TaskDisplayName = ''build'', Step = ''compile'', Log = ''EOFLOG''\<rparr>,
      LogOut \<lparr>Task = ''build'', TaskDisplayName = ''build'', Step = ''compile'', Log = ''EOFLOG''\<rparr>]"
  by (simp add: exReader_def echoEnv_def exStep_def hasStarted_def terminatedState_def mkLog_def)

subsection \<open>C2: the order of the pod names\<close>




subsection \<open>C3: the policy function of the pod watcher\<close>

text \<open>
  Claim C3, as the code has it. The checks are made in this order, and the first that
  applies decides: a pod with a deletion timestamp is returned with the error
  "failed to run the pod <name> " (the text ends with a space), whatever its phase;
  otherwise a pod in phase Succeeded, Running or Failed is returned without error;
  otherwise the first condition of type PodInitialized or ContainersReady with status
  Unknown makes the pod be returned with the message of that condition as error;
  otherwise there is no result and the wait goes on.
\<close>

theorem checkPodStatus_policy:
  "checkPodStatus (PodObj pod) =
     (if DeletionTimestamp pod \<noteq> None then
        (Some pod, Some (''failed to run the pod '' @ pod_Name pod @ '' ''))
      else if Phase pod \<in> {PodSucceeded, PodRunning, PodFailed} then (Some pod, None)
      else case find (\<lambda>c. (pc_Type c = PodInitialized \<or> pc_Type c = ContainersReady)
                            \<and> pc_Status c = ConditionUnknown) (Conditions pod) of
             Some c \<Rightarrow> (Some pod, Some (pc_Message c))
           | None \<Rightarrow> (None, None))"
  by (simp add: checkConditions_find split: option.splits)

theorem checkPodStatus_policy_witness:
  "checkPodStatus (PodObj buildPod) = (Some buildPod, None)"
  using checkPodStatus_policy [of buildPod]
  by (simp add: buildPod_def)

text \<open>A running pod that is being deleted is returned with an error.\<close>

theorem checkPodStatus_deleted_running:
  "Phase deletedPod = PodRunning \<and>
   checkPodStatus (PodObj deletedPod) = (Some deletedPod, Some ''failed to run the pod build-pod '')"
  by (simp add: deletedPod_def)

subsection \<open>C4: a pod that cannot be fetched\<close>

text \<open>
  Claim C4 describes what is meant and the code misses. After the error of
  \<open>Wait\<close> or \<open>Get\<close> has been forwarded, the loop goes on with the same pod instead of
  the next name. In follow mode a pod that does not exist makes \<open>Wait\<close> return a nil
  pod: the error is sent, then the steps are computed from the nil pod, and the
  goroutine panics before the next pod name is read. A pod that \<open>Wait\<close> returns with an
  error (here one that is being deleted) has its steps streamed all the same.
\<close>

theorem missing_pod_panics:
  "podLoop exReader exCluster True [''p0'', ''p2''] =
     ([ErrOut ''task build failed: pods p0 not found. Run tkn tr desc build-run for more details''],
      Panicked)
   \<and> podLoop exReader exCluster True [''p1''] =
     ([ErrOut ''task build failed: failed to run the pod build-pod. Run tkn tr desc build-run for more details'',
       LogOut \<lparr>Task = ''build'', TaskDisplayName = ''build'', Step = ''compile'', Log = ''a''\<rparr>,
       LogOut \<lparr>Task = ''build'', TaskDisplayName = ''build'', Step = ''compile'', Log = ''EOFLOG''\<rparr>],
      Completed)"
  by (simp add: exCluster_def fetchPod_def Wait_def podError_def filterSteps_def exReader_def
      TrimSpace_def isSpace_def deletedPod_def TrimPrefix_def lookupState_def quietEnv_def
      hasStarted_def runningState_def mkLog_def)

subsection \<open>C5: the filtered steps\<close>

text \<open>
  Claim C5, as the code has it. The steps of a pod are those of its regular containers
  in order, each with the name of the container without the prefix "step-" and the
  state that the container statuses give for the container. With a non-empty list of
  step names, a step of a regular container is kept exactly when its name is in the
  list. With \<open>allSteps\<close> the steps of the init containers come first, all of them: the
  list of step names does not filter them.
\<close>

theorem filterSteps_result:
  "filterSteps (Some pod) allSt given =
     Some ((if allSt then map (podStep (InitContainerStatuses pod)) (InitContainers pod) else [])
           @ filter (\<lambda>sp. given = [] \<or> name sp \<in> set given)
               (map (podStep (ContainerStatuses pod)) (Containers pod)))"
  by (simp add: filterSteps_def stepsOf_podStep addGiven_filter stepsToAddMap_lookup
      lookupBool_empty)

theorem filterSteps_result_witness:
  "map name (the (filterSteps (Some buildPod) False [''test''])) = [''test'']"
  using filterSteps_result [of buildPod False "[''test'']"]
  by (simp add: buildPod_def podStep_def TrimPrefix_def)

text \<open>With \<open>allSteps\<close> an init step outside the list of step names is kept.\<close>

theorem filterSteps_init_not_filtered:
  "map name (the (filterSteps (Some buildPod) True [''test''])) = [''prepare'', ''test'']"
  by (simp add: filterSteps_def buildPod_def TrimPrefix_def lookupBool_def lookupState_def)

subsection \<open>C6: the activity timeout\<close>

text \<open>
  Claim C6, as the code has it. When the timer fires: if the task run has failed, that
  failure is sent as error and the discovery returns; else if the task run has started
  and has a pod name, the discovery returns without error when no retry is scheduled,
  and keeps watching, without error, when a retry is scheduled; else the error
  "task <name> has not started yet or pod for task not yet available" is sent and the
  discovery returns.
\<close>

theorem timeout_policy:
  "watchLoop r tr podMap (Timeout # rest) =
     (if isFailure tr then
        ([PodErr (''task '' @ task r @ '' has failed: '' @ cond_Message (hd (tr_Conditions tr)))], True)
      else if HasStarted tr \<and> PodName tr \<noteq> [] then
        (if areRetriesScheduled tr (retries r) then watchLoop r tr podMap rest else ([], True))
      else
        ([PodErr (''task '' @ task r @ '' has not started yet or pod for task not yet available'')], True))"
  by (simp add: hasTaskRunFailed_def)

theorem timeout_policy_witness:
  "watchLoop exReader (firstAttempt\<lparr>PodName := []\<rparr>) {} [Timeout] =
     ([PodErr ''task build has not started yet or pod for task not yet available''], True)"
  using timeout_policy [of exReader "firstAttempt\<lparr>PodName := []\<rparr>" "{}" "[]"]
  by (simp add: isFailure_def firstAttempt_def exReader_def)

text \<open>
  A started run with a pod and a retry still to come: at the timeout nothing is sent
  and the discovery has not returned.
\<close>

theorem timeout_keeps_watching:
  "\<not> isFailure firstAttempt \<and> HasStarted firstAttempt \<and> PodName firstAttempt \<noteq> [] \<and>
   areRetriesScheduled firstAttempt (retries exReader) \<and>
   watchLoop exReader firstAttempt {''p0''} [Timeout] = ([], False)"
  by (simp add: hasTaskRunFailed_def isFailure_def firstAttempt_def exReader_def
      areRetriesScheduled_def IsDone_def HasStarted_def)

subsection \<open>C7: a step whose status check fails\<close>

text \<open>
  Claim C7. For a pod that was fetched, and a step of it that is streamed: when the
  status check after the stream returns an error, this error is sent last, after all
  that the step's channels delivered, the steps after it are not read, and the loop
  over the pod names goes on with the next names.
\<close>

theorem status_error_skips_rest:
  assumes "fetchPod env fol podName = Some (Some pod, perr)"
    and "filterSteps (Some pod) (allSteps r) (steps r) = Some (pre @ s # rest)"
    and "fol \<or> hasStarted s"
    and "readErr (containers (env podName) (container s)) = None"
    and "statusErr (containers (env podName) (container s)) = Some err"
  shows "readStepsLogs r (containers (env podName)) fol (s # rest) =
           selectLoop r s (Some (logLines (containers (env podName) (container s))))
             (Some (logErrs (containers (env podName) (container s))))
             (sched (containers (env podName) (container s))) @ [ErrOut err]
       \<and> podLoop r env fol (podName # podNames) =
           (podError r perr @ readStepsLogs r (containers (env podName)) fol (pre @ [s])
              @ fst (podLoop r env fol podNames),
            snd (podLoop r env fol podNames))"
proof -
  have a: "readStepsLogs r (containers (env podName)) fol (s # rest) =
           selectLoop r s (Some (logLines (containers (env podName) (container s))))
             (Some (logErrs (containers (env podName) (container s))))
             (sched (containers (env podName) (container s))) @ [ErrOut err]"
    using assms(3-5) by auto
  have "readStepsLogs r (containers (env podName)) fol (pre @ s # rest)
        = readStepsLogs r (containers (env podName)) fol (pre @ [s])"
    using assms(3-5) by (rule readStepsLogs_status_error)
  then have b: "podLoop r env fol (podName # podNames) =
           (podError r perr @ readStepsLogs r (containers (env podName)) fol (pre @ [s])
              @ fst (podLoop r env fol podNames),
            snd (podLoop r env fol podNames))"
    using assms(1,2) by (simp split: prod.splits)
  from a b show ?thesis by blast
qed

theorem status_error_skips_rest_witness:
  "podLoop exReader exCluster False [''p2'', ''p3''] =
     ([LogOut (mkLog exReader exStep ''a''), LogOut (mkLog exReader exStep ''EOFLOG''),
       ErrOut ''container step-compile has failed'',
       LogOut (mkLog exReader exStep ''a''), LogOut (mkLog exReader exStep ''EOFLOG''),
       ErrOut ''container step-compile has failed''],
      Completed)"
proof -
  have h1: "fetchPod exCluster False ''p2'' = Some (Some buildPod, None)"
    by (simp add: fetchPod_def exCluster_def)
  have h2: "filterSteps (Some buildPod) (allSteps exReader) (steps exReader)
            = Some ([] @ exStep # [testStep])"
    by (simp add: filterSteps_def buildPod_def exReader_def exStep_def testStep_def
        TrimPrefix_def lookupState_def)
  have h3: "False \<or> hasStarted exStep"
    by (simp add: hasStarted_def exStep_def terminatedState_def)
  have h4: "readErr (containers (exCluster ''p2'') (container exStep)) = None"
    by (simp add: exCluster_def failingEnv_def)
  have h5: "statusErr (containers (exCluster ''p2'') (container exStep))
            = Some ''container step-compile has failed''"
    by (simp add: exCluster_def failingEnv_def exStep_def)
  have h6: "fetchPod exCluster False ''p3'' = Some (Some buildPod, None)"
    by (simp add: fetchPod_def exCluster_def)
  have c2: "containers (exCluster ''p2'') = failingEnv"
    and c3: "containers (exCluster ''p3'') = failingEnv"
    by (simp_all add: exCluster_def)
  have e: "readStepsLogs exReader failingEnv False [exStep] =
             [LogOut (mkLog exReader exStep ''a''), LogOut (mkLog exReader exStep ''EOFLOG''),
              ErrOut ''container step-compile has failed'']"
    by (simp add: failingEnv_def exStep_def hasStarted_def terminatedState_def)
  have f: "podLoop exReader exCluster False [''p3''] =
             ([LogOut (mkLog exReader exStep ''a''), LogOut (mkLog exReader exStep ''EOFLOG''),
               ErrOut ''container step-compile has failed''], Completed)"
    using status_error_skips_rest [OF h6 h2 h3, of "''container step-compile has failed''" "[]"]
      h4 h5 e
    by (simp add: c2 c3 podError_def)
  show ?thesis
    using status_error_skips_rest [OF h1 h2 h3 h4 h5, of "[''p3'']"] e f
    by (simp add: c2 podError_def)
qed

subsection \<open>C8: the end of the discovery\<close>

text \<open>
  Claim C8, as the code has it. The discovery looks at the retries only when it handles
  a watch event or the timeout, not on the task run it starts from. When it
  receives a watch event whose task run has a pod name and at least the configured
  number of retries, it sends this pod name if it has not sent it before, and
  returns: whatever the watch or the timer deliver afterwards, nothing more is sent.
\<close>

theorem discovery_returns_on_event:
  assumes "PodName tr' \<noteq> []" and "retries r \<le> int (length (RetriesStatus tr'))"
  shows "watchLoop r tr podMap (WatchEvent tr' # rest) = (snd (addPod podMap (PodName tr')), True)
       \<and> (\<exists>out. getTaskRunPodNames r tr0 None (pre @ [WatchEvent tr']) = Inr (out, True))
       \<and> getTaskRunPodNames r tr0 None (pre @ WatchEvent tr' # post)
           = getTaskRunPodNames r tr0 None (pre @ [WatchEvent tr'])"
proof -
  have nr: "\<not> areRetriesScheduled tr' (retries r)"
    using assms(2) by (rule no_retries_scheduled)
  have a: "watchLoop r tr podMap (WatchEvent tr' # rest) = (snd (addPod podMap (PodName tr')), True)"
    using assms(1) nr by (simp split: prod.splits)
  have b: "snd (watchLoop r tr0 pm (pre @ [WatchEvent tr']))" for pm
    using assms(1) nr by (rule watchLoop_final_event)
  have c: "watchLoop r tr0 pm (pre @ WatchEvent tr' # post)
           = watchLoop r tr0 pm (pre @ [WatchEvent tr'])" for pm
    using watchLoop_returned_append [OF b, of pm post] by simp
  have d: "\<exists>out. getTaskRunPodNames r tr0 None (pre @ [WatchEvent tr']) = Inr (out, True)"
    using b [of "fst (initialPods tr0)"]
    by (simp add: getTaskRunPodNames_def discoverPodNames_alt)
  have e: "getTaskRunPodNames r tr0 None (pre @ WatchEvent tr' # post)
           = getTaskRunPodNames r tr0 None (pre @ [WatchEvent tr'])"
    by (simp add: getTaskRunPodNames_def discoverPodNames_alt c)
  from a d e show ?thesis by blast
qed

theorem discovery_returns_on_event_witness:
  "getTaskRunPodNames exReader firstAttempt None [WatchEvent secondAttempt, WatchEvent firstAttempt]
     = Inr ([PodOut ''p0'', PodOut ''p1''], True)"
proof -
  have h1: "PodName secondAttempt \<noteq> []"
    by (simp add: secondAttempt_def)
  have h2: "retries exReader \<le> int (length (RetriesStatus secondAttempt))"
    by (simp add: secondAttempt_def exReader_def)
  have "getTaskRunPodNames exReader firstAttempt None [WatchEvent secondAttempt]
        = Inr ([PodOut ''p0'', PodOut ''p1''], True)"
    by (simp add: getTaskRunPodNames_def discoverPodNames_def initialPods_def addPod_def firstAttempt_def
        secondAttempt_def exReader_def areRetriesScheduled_def IsDone_def)
  then show ?thesis
    using discovery_returns_on_event [OF h1 h2, of firstAttempt "{}" "[]" firstAttempt "[]"
        "[WatchEvent firstAttempt]"]
    by simp
qed

text \<open>
  A discovery configured for no retry and started from a run that has its pod name:
  it sends the name and keeps watching, and a later event makes it send another name.
\<close>

theorem discovery_entry_not_checked:
  "PodName firstAttempt \<noteq> [] \<and>
   retries (exReader\<lparr>retries := 0\<rparr>) \<le> int (length (RetriesStatus firstAttempt)) \<and>
   getTaskRunPodNames (exReader\<lparr>retries := 0\<rparr>) firstAttempt None []
     = Inr ([PodOut ''p0''], False) \<and>
   getTaskRunPodNames (exReader\<lparr>retries := 0\<rparr>) firstAttempt None [WatchEvent secondAttempt]
     = Inr ([PodOut ''p0'', PodOut ''p1''], True)"
  by (simp add: getTaskRunPodNames_def discoverPodNames_def initialPods_def addPod_def firstAttempt_def secondAttempt_def
      exReader_def areRetriesScheduled_def IsDone_def)

subsection \<open>C10: a container without a status\<close>

text \<open>
  Claim C10. A container of the pod specification (regular or init) whose name has no
  entry in the statuses gives a step with the zero container state; its \<open>Waiting\<close>
  field is nil, so the step has started. Without follow, \<open>readStepsLogs\<close> therefore does
  not skip the step: it opens the log stream of the container, and sends either the
  error of the opening or what the stream delivers.
\<close>

theorem missing_status_is_read:
  assumes "c_Name c \<notin> cs_Name ` set sts"
  shows "state (podStep sts c) = zeroContainerState
       \<and> hasStarted (podStep sts c)
       \<and> getSteps (Some pod) = Some (map (podStep (ContainerStatuses pod)) (Containers pod))
       \<and> getInitSteps (Some pod) = Some (map (podStep (InitContainerStatuses pod)) (InitContainers pod))
       \<and> readStepsLogs r cenv False (podStep sts c # rest) =
           (case readErr (cenv (c_Name c)) of
              Some err \<Rightarrow>
                ErrOut (''error in getting logs for step '' @ TrimPrefix (c_Name c) ''step-'' @ '': '' @ err)
                  # readStepsLogs r cenv False rest
            | None \<Rightarrow>
                selectLoop r (podStep sts c) (Some (logLines (cenv (c_Name c))))
                  (Some (logErrs (cenv (c_Name c)))) (sched (cenv (c_Name c)))
                @ (case statusErr (cenv (c_Name c)) of
                     Some err \<Rightarrow> [ErrOut err]
                   | None \<Rightarrow> readStepsLogs r cenv False rest))"
proof -
  have z: "state (podStep sts c) = zeroContainerState"
    using assms by (simp add: podStep_def statusState_missing)
  then have h: "hasStarted (podStep sts c)"
    by (simp add: hasStarted_def zeroContainerState_def)
  have n: "name (podStep sts c) = TrimPrefix (c_Name c) ''step-''"
    and k: "container (podStep sts c) = c_Name c"
    by (simp_all add: podStep_def)
  show ?thesis
    using z h by (simp add: stepsOf_podStep n k split: option.splits)
qed

theorem missing_status_is_read_witness:
  "c_Name \<lparr>c_Name = ''step-test''\<rparr> \<notin> cs_Name ` set (ContainerStatuses partialPod)
   \<and> map hasStarted (the (getSteps (Some partialPod))) = [True, True]
   \<and> logsOf (readStepsLogs exReader quietEnv False (the (getSteps (Some partialPod))))
      = [mkLog exReader exStep ''a'', mkLog exReader exStep ''EOFLOG'',
         mkLog exReader testStep ''a'', mkLog exReader testStep ''EOFLOG'']"
  using missing_status_is_read [of "\<lparr>c_Name = ''step-test''\<rparr>" "ContainerStatuses partialPod"
      partialPod exReader quietEnv "[]"]
  by (simp add: partialPod_def podStep_def statusState_def TrimPrefix_def quietEnv_def hasStarted_def
      terminatedState_def mkLog_def exStep_def testStep_def exReader_def)

end
